theory Spec2Isabelle
  imports Main "HOL-Library.AList"
begin

section \<open>Python values\<close>

text \<open>
  The server of \<^verbatim>\<open>translation_server.py\<close> handles values decoded from JSON: the
  request body (\<^verbatim>\<open>request.json\<close>) and the provider's answer
  (\<^verbatim>\<open>response.json()\<close>). A Python string is the list of its Unicode code points;
  \<open>str\<close> gives the string of a literal written in ASCII.
\<close>

type_synonym pystr = "nat list"

definition str :: "String.string \<Rightarrow> pystr" where
  "str s = map of_char s"

text \<open>
  A decoded value is \<^verbatim>\<open>None\<close>, a bool, a number, a string, a list or a dict with
  string keys. A dict is an association list read with \<open>map_of\<close> and written with
  \<open>AList.update\<close>, which keeps Python's insertion order. Numbers are integers
  here; floats are outside the model.
\<close>

datatype pyval =
    PNone
  | PBool bool
  | PInt int
  | PStr pystr
  | PList "pyval list"
  | PDict "(pystr \<times> pyval) list"

datatype py_error = KeyError | TypeError | AttributeError | IndexError

text \<open>Truth value testing, as \<^verbatim>\<open>if result:\<close> and \<^verbatim>\<open>not words\<close> do it.\<close>

fun truthy :: "pyval \<Rightarrow> bool" where
  "truthy PNone = False"
| "truthy (PBool b) = b"
| "truthy (PInt n) = (n \<noteq> 0)"
| "truthy (PStr s) = (s \<noteq> [])"
| "truthy (PList xs) = (xs \<noteq> [])"
| "truthy (PDict kvs) = (kvs \<noteq> [])"

subsection \<open>String methods\<close>

text \<open>
  \<^verbatim>\<open>str.lower()\<close> is Python's own: it follows the case mappings of the Unicode
  character database, which is no part of this repository. Every function below
  that lower-cases a text takes \<^verbatim>\<open>str.lower\<close> as its first argument, named
  \<open>lower\<close>, and every statement about it holds whatever that function is. The
  examples run on ASCII text, where \<^verbatim>\<open>str.lower()\<close> maps \<^verbatim>\<open>A\<close> to \<^verbatim>\<open>Z\<close> onto
  \<^verbatim>\<open>a\<close> to \<^verbatim>\<open>z\<close> and leaves every other character as it is:
\<close>

definition ascii_lower :: "pystr \<Rightarrow> pystr" where
  "ascii_lower s = map (\<lambda>c. if 65 \<le> c \<and> c \<le> 90 then c + 32 else c) s"

text \<open>
  The characters that \<^verbatim>\<open>str.strip()\<close> removes, those for which \<^verbatim>\<open>str.isspace()\<close>
  holds: U+0009 to U+000D, U+001C to U+0020, U+0085, U+00A0, U+1680, U+2000 to
  U+200A, U+2028, U+2029, U+202F, U+205F and U+3000.
\<close>

definition isspace :: "nat \<Rightarrow> bool" where
  "isspace c =
     ((9 \<le> c \<and> c \<le> 13) \<or> (28 \<le> c \<and> c \<le> 32) \<or> c = 133 \<or> c = 160 \<or> c = 5760 \<or>
      (8192 \<le> c \<and> c \<le> 8202) \<or> c = 8232 \<or> c = 8233 \<or> c = 8239 \<or> c = 8287 \<or>
      c = 12288)"

text \<open>\<^verbatim>\<open>str.strip()\<close>\<close>

definition strip :: "pystr \<Rightarrow> pystr" where
  "strip s = rev (dropWhile isspace (rev (dropWhile isspace s)))"

text \<open>\<^verbatim>\<open>value.strip()\<close> on any value.\<close>

fun py_strip :: "pyval \<Rightarrow> py_error + pystr" where
  "py_strip (PStr s) = Inr (strip s)"
| "py_strip _ = Inl AttributeError"

subsection \<open>Containers\<close>

text \<open>\<^verbatim>\<open>data.get(key, default)\<close>: only a dict has the method.\<close>

fun py_get :: "pyval \<Rightarrow> pystr \<Rightarrow> pyval \<Rightarrow> py_error + pyval" where
  "py_get (PDict kvs) k dflt = Inr (case map_of kvs k of None \<Rightarrow> dflt | Some v \<Rightarrow> v)"
| "py_get _ k dflt = Inl AttributeError"

fun is_substr :: "pystr \<Rightarrow> pystr \<Rightarrow> bool" where
  "is_substr p [] = (p = [])"
| "is_substr p (c # s) = (take (length p) (c # s) = p \<or> is_substr p s)"

text \<open>
  \<^verbatim>\<open>'k' in v\<close>: key membership in a dict, element membership in a list, substring
  test in a string, TypeError for the values that are not iterable.
\<close>

fun py_contains :: "pystr \<Rightarrow> pyval \<Rightarrow> py_error + bool" where
  "py_contains k (PDict kvs) = Inr (map_of kvs k \<noteq> None)"
| "py_contains k (PList xs) = Inr (PStr k \<in> set xs)"
| "py_contains k (PStr s) = Inr (is_substr k s)"
| "py_contains k _ = Inl TypeError"

text \<open>\<^verbatim>\<open>v['k']\<close> with a string subscript.\<close>

fun py_getitem :: "pyval \<Rightarrow> pystr \<Rightarrow> py_error + pyval" where
  "py_getitem (PDict kvs) k = (case map_of kvs k of None \<Rightarrow> Inl KeyError | Some v \<Rightarrow> Inr v)"
| "py_getitem _ k = Inl TypeError"

text \<open>
  \<^verbatim>\<open>v[0]\<close>: the first element of a list or string (IndexError when empty); a dict
  decoded from JSON has string keys only, so the key \<open>0\<close> is missing.
\<close>

fun py_getitem0 :: "pyval \<Rightarrow> py_error + pyval" where
  "py_getitem0 (PList []) = Inl IndexError"
| "py_getitem0 (PList (x # xs)) = Inr x"
| "py_getitem0 (PStr []) = Inl IndexError"
| "py_getitem0 (PStr (c # s)) = Inr (PStr [c])"
| "py_getitem0 (PDict kvs) = Inl KeyError"
| "py_getitem0 _ = Inl TypeError"

section \<open>The provider and the server state\<close>

text \<open>
  The query parameters of one \<^verbatim>\<open>requests.post\<close>; \<^verbatim>\<open>key\<close> and \<^verbatim>\<open>format\<close> are the
  same in every request and left out.
\<close>

record params =
  param_q :: pystr
  param_source :: pystr
  param_target :: pystr

text \<open>
  What \<^verbatim>\<open>requests.post\<close> does: it raises, or it returns a response with a status
  code and a body; the body is \<open>None\<close> when \<^verbatim>\<open>response.json()\<close> raises.
\<close>

datatype http_result = Transport_Exception | Response int "pyval option"

text \<open>
  The provider is outside the program: its answer may depend on the request and on
  every request sent before.
\<close>

type_synonym provider = "params list \<Rightarrow> params \<Rightarrow> http_result"

text \<open>
  The two inner dicts of \<^verbatim>\<open>CACHE\<close>, and the requests sent to the provider so far
  (the trace of the network effect; the program does not read it).
\<close>

record state =
  cache_en_to_mizo :: "(pystr \<times> pyval) list"
  cache_mizo_to_en :: "(pystr \<times> pyval) list"
  sent :: "params list"

definition init :: state where
  "init = \<lparr>cache_en_to_mizo = [], cache_mizo_to_en = [], sent = []\<rparr>"

text \<open>A list or a dict is unhashable and cannot be used as a dict key.\<close>

fun hashable :: "pyval \<Rightarrow> bool" where
  "hashable (PList xs) = False"
| "hashable (PDict kvs) = False"
| "hashable _ = True"

text \<open>
  \<^verbatim>\<open>CACHE[direction]\<close>: the outer dict has the two keys only. An unhashable key raises
  TypeError, any other key that is not one of the two raises KeyError.
\<close>

definition CACHE_get :: "state \<Rightarrow> pyval \<Rightarrow> py_error + (pystr \<times> pyval) list" where
  "CACHE_get st direction =
     (if hashable direction then
        (if direction = PStr (str ''en-to-mizo'') then Inr (cache_en_to_mizo st)
         else if direction = PStr (str ''mizo-to-en'') then Inr (cache_mizo_to_en st)
         else Inl KeyError)
      else Inl TypeError)"

text \<open>
  \<^verbatim>\<open>CACHE[direction][cache_key] = result\<close>, reached only after \<open>CACHE_get\<close> has
  succeeded for the same direction.
\<close>

definition CACHE_set :: "state \<Rightarrow> pyval \<Rightarrow> pystr \<Rightarrow> pyval \<Rightarrow> state" where
  "CACHE_set st direction cache_key result =
     (if direction = PStr (str ''en-to-mizo'')
      then st\<lparr>cache_en_to_mizo := AList.update cache_key result (cache_en_to_mizo st)\<rparr>
      else st\<lparr>cache_mizo_to_en := AList.update cache_key result (cache_mizo_to_en st)\<rparr>)"

section \<open>The translation client\<close>

text \<open>
  The body of the \<^verbatim>\<open>try\<close> after \<^verbatim>\<open>response.json()\<close>, for status 200:
  \<^verbatim>\<open>'data' in result and 'translations' in result['data']\<close>, then
  \<^verbatim>\<open>result['data']['translations'][0]['translatedText']\<close>, else \<^verbatim>\<open>None\<close>.
\<close>

definition read_translation :: "pyval \<Rightarrow> py_error + pyval" where
  "read_translation result =
     (case py_contains (str ''data'') result of
        Inl e \<Rightarrow> Inl e
      | Inr False \<Rightarrow> Inr PNone
      | Inr True \<Rightarrow>
          (case py_getitem result (str ''data'') of
             Inl e \<Rightarrow> Inl e
           | Inr d \<Rightarrow>
               (case py_contains (str ''translations'') d of
                  Inl e \<Rightarrow> Inl e
                | Inr False \<Rightarrow> Inr PNone
                | Inr True \<Rightarrow>
                    (case py_getitem d (str ''translations'') of
                       Inl e \<Rightarrow> Inl e
                     | Inr ts \<Rightarrow>
                         (case py_getitem0 ts of
                            Inl e \<Rightarrow> Inl e
                          | Inr t \<Rightarrow> py_getitem t (str ''translatedText''))))))"

text \<open>
  \<^verbatim>\<open>translate_with_google\<close>: one request to the provider; every exception of the
  \<^verbatim>\<open>try\<close> body is caught and becomes \<^verbatim>\<open>None\<close>.
\<close>

definition translate_with_google ::
  "provider \<Rightarrow> pystr \<Rightarrow> pystr \<Rightarrow> pystr \<Rightarrow> state \<Rightarrow> pyval \<times> state" where
  "translate_with_google P text source_lang target_lang st =
     (let ps = \<lparr>param_q = text, param_source = source_lang, param_target = target_lang\<rparr>;
          st' = st\<lparr>sent := sent st @ [ps]\<rparr>
      in case P (sent st) ps of
           Transport_Exception \<Rightarrow> (PNone, st')
         | Response status_code body \<Rightarrow>
             if status_code = 200 then
               (case body of
                  None \<Rightarrow> (PNone, st')
                | Some result \<Rightarrow>
                    (case read_translation result of
                       Inl e \<Rightarrow> (PNone, st')
                     | Inr translation \<Rightarrow> (translation, st')))
             else (PNone, st'))"

section \<open>Translation with caching\<close>

definition LANGUAGE_CODES :: "(pystr \<times> pystr) list" where
  "LANGUAGE_CODES = [(str ''english'', (str ''en'')), (str ''mizo'', (str ''lus''))]"

definition language_code :: "pystr \<Rightarrow> pystr" where
  "language_code k = (case map_of LANGUAGE_CODES k of Some c \<Rightarrow> c | None \<Rightarrow> [])"

text \<open>
  \<^verbatim>\<open>translate(text, direction)\<close>. The result is the exception that escapes, or the
  value returned, with the state left behind. \<^verbatim>\<open>text.lower()\<close> comes first and
  raises AttributeError on a value that is not a string. The first argument is
  \<^verbatim>\<open>str.lower\<close>.
\<close>

definition translate ::
  "(pystr \<Rightarrow> pystr) \<Rightarrow> provider \<Rightarrow> pyval \<Rightarrow> pyval \<Rightarrow> state \<Rightarrow> (py_error + pyval) \<times> state"
where
  "translate lower P text direction st =
     (case text of
        PStr s \<Rightarrow>
          (let cache_key = lower s in
           case CACHE_get st direction of
             Inl e \<Rightarrow> (Inl e, st)
           | Inr c \<Rightarrow>
               (case map_of c cache_key of
                  Some v \<Rightarrow> (Inr v, st)
                | None \<Rightarrow>
                    (let src = (if direction = PStr (str ''en-to-mizo'')
                                then language_code (str ''english'') else language_code (str ''mizo''));
                         tgt = (if direction = PStr (str ''en-to-mizo'')
                                then language_code (str ''mizo'') else language_code (str ''english''));
                         (result, st') = translate_with_google P s src tgt st
                     in if truthy result
                        then (Inr result, CACHE_set st' direction cache_key result)
                        else (Inr result, st'))))
      | _ \<Rightarrow> (Inl AttributeError, st))"

section \<open>The endpoints\<close>

text \<open>
  An endpoint returns a JSON body with a status code, or lets an exception escape
  (which the framework answers with a 500 of its own).
\<close>

type_synonym reply = "(py_error + pyval \<times> int) \<times> state"

definition no_word :: "pyval \<times> int" where
  "no_word = (PDict [(str ''error'', PStr (str ''No word provided'')), (str ''success'', PBool False)], 400)"

definition translation_failed :: "pyval \<times> int" where
  "translation_failed =
     (PDict [(str ''error'', PStr (str ''Translation failed'')), (str ''success'', PBool False)], 500)"

text \<open>\<^verbatim>\<open>POST /api/translate-mizo\<close>\<close>

definition api_translate_mizo :: "(pystr \<Rightarrow> pystr) \<Rightarrow> provider \<Rightarrow> pyval \<Rightarrow> state \<Rightarrow> reply" where
  "api_translate_mizo lower P data st =
     (case py_get data (str ''word'') (PStr []) of
        Inl e \<Rightarrow> (Inl e, st)
      | Inr w \<Rightarrow>
          (case py_strip w of
             Inl e \<Rightarrow> (Inl e, st)
           | Inr word \<Rightarrow>
               if word = [] then (Inr no_word, st)
               else
                 (case translate lower P (PStr word) (PStr (str ''mizo-to-en'')) st of
                    (Inl e, st') \<Rightarrow> (Inl e, st')
                  | (Inr translation, st') \<Rightarrow>
                      if truthy translation then
                        (Inr (PDict
                           [(str ''mizo'', PStr word),
                            (str ''english'', translation),
                            (str ''direction'', PStr (str ''mizo-to-english'')),
                            (str ''model'', PStr (str ''Google Cloud Translate'')),
                            (str ''cached'', PBool (map_of (cache_mizo_to_en st') (lower word) \<noteq> None)),
                            (str ''success'', PBool True)], 200), st')
                      else (Inr translation_failed, st'))))"

text \<open>\<^verbatim>\<open>POST /api/translate-english\<close>\<close>

definition api_translate_english :: "(pystr \<Rightarrow> pystr) \<Rightarrow> provider \<Rightarrow> pyval \<Rightarrow> state \<Rightarrow> reply" where
  "api_translate_english lower P data st =
     (case py_get data (str ''word'') (PStr []) of
        Inl e \<Rightarrow> (Inl e, st)
      | Inr w \<Rightarrow>
          (case py_strip w of
             Inl e \<Rightarrow> (Inl e, st)
           | Inr word \<Rightarrow>
               if word = [] then (Inr no_word, st)
               else
                 (case translate lower P (PStr word) (PStr (str ''en-to-mizo'')) st of
                    (Inl e, st') \<Rightarrow> (Inl e, st')
                  | (Inr translation, st') \<Rightarrow>
                      if truthy translation then
                        (Inr (PDict
                           [(str ''english'', PStr word),
                            (str ''mizo'', translation),
                            (str ''direction'', PStr (str ''english-to-mizo'')),
                            (str ''model'', PStr (str ''Google Cloud Translate'')),
                            (str ''cached'', PBool (map_of (cache_en_to_mizo st') (lower word) \<noteq> None)),
                            (str ''success'', PBool True)], 200), st')
                      else (Inr translation_failed, st'))))"

text \<open>
  The loop of the batch endpoint over the words it is given: an exception of
  \<^verbatim>\<open>translate\<close> ends it, a falsy translation adds nothing to \<^verbatim>\<open>results\<close>.
\<close>

fun batch_loop ::
  "(pystr \<Rightarrow> pystr) \<Rightarrow> provider \<Rightarrow> pyval list \<Rightarrow> pyval \<Rightarrow> state \<Rightarrow> pyval list \<Rightarrow>
     (py_error + pyval list) \<times> state"
where
  "batch_loop lower P [] direction st results = (Inr results, st)"
| "batch_loop lower P (word # rest) direction st results =
     (case translate lower P word direction st of
        (Inl e, st') \<Rightarrow> (Inl e, st')
      | (Inr translation, st') \<Rightarrow>
          batch_loop lower P rest direction st'
            (if truthy translation
             then results @ [PDict [(str ''input'', word), (str ''output'', translation),
                                    (str ''direction'', direction)]]
             else results))"

definition invalid_words :: "pyval \<times> int" where
  "invalid_words =
     (PDict [(str ''error'', PStr (str ''Invalid words list'')), (str ''success'', PBool False)], 400)"

text \<open>
  \<^verbatim>\<open>POST /api/batch-translate\<close>. The test
  \<^verbatim>\<open>not words or not isinstance(words, list)\<close> refuses every value that is no
  list, and of the lists the empty one, the only falsy list; \<^verbatim>\<open>words[:20]\<close> is
  \<open>take 20\<close>.
\<close>

definition api_batch_translate :: "(pystr \<Rightarrow> pystr) \<Rightarrow> provider \<Rightarrow> pyval \<Rightarrow> state \<Rightarrow> reply" where
  "api_batch_translate lower P data st =
     (case py_get data (str ''words'') (PList []) of
        Inl e \<Rightarrow> (Inl e, st)
      | Inr words \<Rightarrow>
          (case py_get data (str ''direction'') (PStr (str ''mizo-to-en'')) of
             Inl e \<Rightarrow> (Inl e, st)
           | Inr direction \<Rightarrow>
               (case words of
                  PList ws \<Rightarrow>
                    if ws = [] then (Inr invalid_words, st)
                    else
                      (case batch_loop lower P (take 20 ws) direction st [] of
                         (Inl e, st') \<Rightarrow> (Inl e, st')
                       | (Inr results, st') \<Rightarrow>
                           (Inr (PDict
                              [(str ''translations'', PList results),
                               (str ''count'', PInt (int (length results))),
                               (str ''model'', PStr (str ''Google Cloud Translate'')),
                               (str ''success'', PBool True)], 200), st'))
                | _ \<Rightarrow> (Inr invalid_words, st))))"

text \<open>
  \<^verbatim>\<open>GET /api/status\<close>. The process exits at start-up without an API key, so
  \<^verbatim>\<open>bool(GOOGLE_API_KEY)\<close> is true in a running server. The arrows of the two
  feature texts are written in ASCII.
\<close>

definition api_status :: "state \<Rightarrow> reply" where
  "api_status st =
     (Inr (PDict
        [(str ''model_loaded'', PBool True),
         (str ''model_name'', PStr (str ''Google Cloud Translate API'')),
         (str ''model_version'', PStr (str ''v2'')),
         (str ''accuracy'', PStr (str ''Very High (90%+)'')),
         (str ''cache_size'', PDict
            [(str ''mizo_to_english'', PInt (int (length (cache_mizo_to_en st)))),
             (str ''english_to_mizo'', PInt (int (length (cache_en_to_mizo st))))]),
         (str ''features'', PDict
            [(str ''offline_mode'', PStr (str ''English -> Mizo (dictionary.json)'')),
             (str ''online_mode'', PStr (str ''English <-> Mizo (Google Translate)''))]),
         (str ''api_key_configured'', PBool True),
         (str ''status'', PStr (str ''online''))], 200), st)"

text \<open>\<^verbatim>\<open>POST /api/clear-cache\<close>\<close>

definition api_clear_cache :: "state \<Rightarrow> reply" where
  "api_clear_cache st =
     (Inr (PDict [(str ''message'', PStr (str ''Cache cleared'')), (str ''success'', PBool True)], 200),
      st\<lparr>cache_mizo_to_en := [], cache_en_to_mizo := []\<rparr>)"

text \<open>The body and status code of a reply that is no exception.\<close>

definition the_reply :: "py_error + pyval \<times> int \<Rightarrow> pyval \<times> int" where
  "the_reply r = (case r of Inr b \<Rightarrow> b | Inl e \<Rightarrow> (PNone, 500))"

section \<open>The server as a sequence of requests\<close>

text \<open>
  The routes of the application. The two routes that serve static files do not
  touch the cache and send nothing to the provider.
\<close>

datatype call =
    Index
  | Static_Files pystr
  | Translate_Mizo pyval
  | Translate_English pyval
  | Batch_Translate pyval
  | Status
  | Clear_Cache

text \<open>The state a request leaves behind, and the state after a sequence of them.\<close>

fun handle :: "(pystr \<Rightarrow> pystr) \<Rightarrow> provider \<Rightarrow> call \<Rightarrow> state \<Rightarrow> state" where
  "handle lower P Index st = st"
| "handle lower P (Static_Files path) st = st"
| "handle lower P (Translate_Mizo data) st = snd (api_translate_mizo lower P data st)"
| "handle lower P (Translate_English data) st = snd (api_translate_english lower P data st)"
| "handle lower P (Batch_Translate data) st = snd (api_batch_translate lower P data st)"
| "handle lower P Status st = snd (api_status st)"
| "handle lower P Clear_Cache st = snd (api_clear_cache st)"

fun run :: "(pystr \<Rightarrow> pystr) \<Rightarrow> provider \<Rightarrow> call list \<Rightarrow> state \<Rightarrow> state" where
  "run lower P [] st = st"
| "run lower P (c # cs) st = run lower P cs (handle lower P c st)"

section \<open>Providers and payloads used in the examples\<close>

text \<open>The payload of a successful answer of the provider.\<close>

definition payload :: "pystr \<Rightarrow> pyval" where
  "payload t =
     PDict [(str ''data'', PDict [(str ''translations'', PList [PDict [(str ''translatedText'', PStr t)]])])]"

text \<open>A provider that answers every request with the same translation.\<close>

definition google_ok :: "pystr \<Rightarrow> provider" where
  "google_ok t = (\<lambda>history ps. Response 200 (Some (payload t)))"

text \<open>A provider that answers its n-th request with the n-th text, and then times out.\<close>

definition google_seq :: "pystr list \<Rightarrow> provider" where
  "google_seq ts =
     (\<lambda>history ps.
        if length history < length ts then Response 200 (Some (payload (ts ! length history)))
        else Transport_Exception)"


text \<open>
  The request that \<^verbatim>\<open>translate\<close> sends for a text on a cache miss: the language codes
  follow the direction, and every direction but \<^verbatim>\<open>'en-to-mizo'\<close> takes the
  \<^verbatim>\<open>else\<close> branch.
\<close>

definition request_for :: "pystr \<Rightarrow> pyval \<Rightarrow> params" where
  "request_for s d =
     (if d = PStr (str ''en-to-mizo'')
      then \<lparr>param_q = s, param_source = str ''en'', param_target = str ''lus''\<rparr>
      else \<lparr>param_q = s, param_source = str ''lus'', param_target = str ''en''\<rparr>)"

section \<open>The provider's answers, in the words of the specification\<close>

text \<open>
  The translation a payload carries: the \<^verbatim>\<open>translatedText\<close> field of the first
  element of the list \<^verbatim>\<open>translations\<close> of the object \<^verbatim>\<open>data\<close>. A payload without
  it is malformed.
\<close>

definition payload_translation :: "pyval \<Rightarrow> pyval option" where
  "payload_translation result =
     (case result of
        PDict kvs \<Rightarrow>
          (case map_of kvs (str ''data'') of
             Some (PDict d) \<Rightarrow>
               (case map_of d (str ''translations'') of
                  Some (PList (PDict t # rest)) \<Rightarrow> map_of t (str ''translatedText'')
                | _ \<Rightarrow> None)
           | _ \<Rightarrow> None)
      | _ \<Rightarrow> None)"



section \<open>The cache and the batch, as the statements read them\<close>

text \<open>
  The cache of a direction holds a value under a key; false for a direction that
  \<^verbatim>\<open>CACHE\<close> does not have.
\<close>

definition holds :: "state \<Rightarrow> pyval \<Rightarrow> pystr \<Rightarrow> pyval \<Rightarrow> bool" where
  "holds st d k v = (case CACHE_get st d of Inr c \<Rightarrow> map_of c k = Some v | Inl e \<Rightarrow> False)"






section \<open>Basic facts about the client and the cache\<close>

lemma str_eq_iff [simp]: "str a = str b \<longleftrightarrow> a = b"
  by (simp add: str_def inj_map_eq_map inj_of_char)

lemma str_Nil_iff [simp]: "str s = [] \<longleftrightarrow> s = []"
  by (simp add: str_def)

lemma language_codes [simp]:
  "language_code (str ''english'') = str ''en''" "language_code (str ''mizo'') = str ''lus''"
  by (simp_all add: language_code_def LANGUAGE_CODES_def)

lemma twg_state:
  "snd (translate_with_google P s a b st) =
     st\<lparr>sent := sent st @ [\<lparr>param_q = s, param_source = a, param_target = b\<rparr>]\<rparr>"
  by (simp add: translate_with_google_def Let_def
      split: http_result.splits option.splits sum.splits)

lemma CACHE_get_Inr:
  "CACHE_get st d = Inr c \<Longrightarrow>
     (d = PStr (str ''en-to-mizo'') \<and> c = cache_en_to_mizo st) \<or>
     (d = PStr (str ''mizo-to-en'') \<and> c = cache_mizo_to_en st)"
  by (auto simp: CACHE_get_def split: if_splits)

lemma CACHE_get_sent [simp]: "CACHE_get (st\<lparr>sent := x\<rparr>) d = CACHE_get st d"
  by (simp add: CACHE_get_def)

lemma CACHE_get_CACHE_set:
  "CACHE_get st d = Inr c \<Longrightarrow> CACHE_get (CACHE_set st d k v) d = Inr (AList.update k v c)"
  by (auto simp: CACHE_get_def CACHE_set_def split: if_splits)

lemma translate_hit:
  "CACHE_get st d = Inr c \<Longrightarrow> map_of c (lower s) = Some v \<Longrightarrow>
     translate lower P (PStr s) d st = (Inr v, st)"
  by (simp add: translate_def)

text \<open>With a string and one of the two directions, \<open>translate\<close> raises nothing.\<close>

lemma translate_Inr:
  assumes "d = PStr (str ''en-to-mizo'') \<or> d = PStr (str ''mizo-to-en'')"
  shows "\<exists>r st'. translate lower P (PStr s) d st = (Inr r, st')"
  using assms
  by (auto simp: translate_def CACHE_get_def Let_def split: option.splits prod.splits)

text \<open>The four ways in which a call of \<open>translate\<close> ends.\<close>

lemma translate_cases:
  assumes "translate lower P text d st = (r, st')"
  obtains
    (raised) e where "r = Inl e" "st' = st"
  | (hit) s c v where "text = PStr s" "CACHE_get st d = Inr c" "map_of c (lower s) = Some v"
      "r = Inr v" "st' = st"
  | (failed) s c res where "text = PStr s" "CACHE_get st d = Inr c" "map_of c (lower s) = None"
      "\<not> truthy res" "r = Inr res" "st' = st\<lparr>sent := sent st @ [request_for s d]\<rparr>"
  | (stored) s c res where "text = PStr s" "CACHE_get st d = Inr c" "map_of c (lower s) = None"
      "truthy res" "r = Inr res"
      "st' = CACHE_set (st\<lparr>sent := sent st @ [request_for s d]\<rparr>) d (lower s) res"
proof (cases "text")
  case (PStr s)
  show ?thesis
  proof (cases "CACHE_get st d")
    case (Inl e)
    with PStr assms show ?thesis by (auto simp: translate_def intro: raised)
  next
    case (Inr c)
    show ?thesis
    proof (cases "map_of c (lower s)")
      case (Some v)
      with PStr Inr assms show ?thesis by (auto simp: translate_def intro: hit)
    next
      case None
      obtain res st1 where g: "translate_with_google P s (param_source (request_for s d))
          (param_target (request_for s d)) st = (res, st1)"
        by (cases "translate_with_google P s (param_source (request_for s d))
          (param_target (request_for s d)) st")
      have st1: "st1 = st\<lparr>sent := sent st @ [request_for s d]\<rparr>"
        using twg_state [of P s "param_source (request_for s d)"
            "param_target (request_for s d)" st] g
        by (simp add: request_for_def split: if_splits)
      have t: "translate lower P text d st =
          (if truthy res then (Inr res, CACHE_set st1 d (lower s) res) else (Inr res, st1))"
        using PStr Inr None g by (simp add: translate_def request_for_def split: if_splits)
      show ?thesis
      proof (cases "truthy res")
        case True
        with t assms st1 PStr Inr None show ?thesis by (auto intro: stored)
      next
        case False
        with t assms st1 PStr Inr None show ?thesis by (auto intro: failed)
      qed
    qed
  qed
qed (use assms in \<open>auto simp: translate_def intro: raised\<close>)

text \<open>No call of \<open>translate\<close> removes or changes an entry of either cache.\<close>

lemma translate_keeps_en:
  assumes "translate lower P text d st = (r, st')" "map_of (cache_en_to_mizo st) k = Some v"
  shows "map_of (cache_en_to_mizo st') k = Some v"
  using assms(1)
proof (cases rule: translate_cases)
  case (stored s c res)
  then show ?thesis using assms(2)
    by (auto simp: CACHE_set_def update_conv' dest!: CACHE_get_Inr)
qed (use assms(2) in auto)

lemma translate_keeps_mizo:
  assumes "translate lower P text d st = (r, st')" "map_of (cache_mizo_to_en st) k = Some v"
  shows "map_of (cache_mizo_to_en st') k = Some v"
  using assms(1)
proof (cases rule: translate_cases)
  case (stored s c res)
  then show ?thesis using assms(2)
    by (auto simp: CACHE_set_def update_conv' dest!: CACHE_get_Inr)
qed (use assms(2) in auto)

text \<open>
  The client reads a payload as the specification describes it: it returns the
  translation the payload carries, and \<^verbatim>\<open>None\<close> for a malformed one, by the
  \<^verbatim>\<open>else\<close> branch or by an exception that it catches.
\<close>

lemma read_translation_Some:
  "payload_translation j = Some v \<Longrightarrow> read_translation j = Inr v"
  by (auto simp: payload_translation_def read_translation_def
      split: pyval.splits option.splits list.splits)





section \<open>What the cache keeps\<close>

text \<open>
  An entry of a cache stays as it is through every request but
  \<^verbatim>\<open>/api/clear-cache\<close>: \<open>translate\<close> writes a key only when the cache does not have
  it.
\<close>

lemma holds_iff:
  "holds st d k v \<longleftrightarrow>
     (d = PStr (str ''en-to-mizo'') \<and> map_of (cache_en_to_mizo st) k = Some v) \<or>
     (d = PStr (str ''mizo-to-en'') \<and> map_of (cache_mizo_to_en st) k = Some v)"
  by (auto simp: holds_def CACHE_get_def)

lemma holds_translate:
  assumes "translate lower P w d' st = (r, st')" and "holds st d k v"
  shows "holds st' d k v"
  using assms translate_keeps_en [OF assms(1)] translate_keeps_mizo [OF assms(1)]
  by (auto simp: holds_iff)

lemma translate_stores:
  assumes "translate lower P (PStr t) d st = (Inr r, st')" and "truthy r"
  shows "holds st' d (lower t) r"
  using assms(1)
proof (cases rule: translate_cases)
  case (hit s c v)
  then show ?thesis by (simp add: holds_def)
next
  case (stored s c res)
  then show ?thesis by (simp add: holds_def CACHE_get_CACHE_set update_conv')
qed (use assms(2) in auto)

lemma translate_held:
  assumes "holds st d (lower t) v"
  shows "translate lower P (PStr t) d st = (Inr v, st)"
  using assms by (auto simp: holds_def translate_hit split: sum.splits)

lemma api_translate_mizo_state:
  "snd (api_translate_mizo lower P data st) = st \<or>
   (\<exists>w r. translate lower P w (PStr (str ''mizo-to-en'')) st = (r, snd (api_translate_mizo lower P data st)))"
  by (auto simp: api_translate_mizo_def split: sum.splits prod.splits)

lemma api_translate_english_state:
  "snd (api_translate_english lower P data st) = st \<or>
   (\<exists>w r. translate lower P w (PStr (str ''en-to-mizo'')) st = (r, snd (api_translate_english lower P data st)))"
  by (auto simp: api_translate_english_def split: sum.splits prod.splits)

lemma holds_batch_loop:
  "holds st d k v \<Longrightarrow> holds (snd (batch_loop lower P ws d' st acc)) d k v"
proof (induction ws arbitrary: st acc)
  case Nil
  then show ?case by simp
next
  case (Cons w ws)
  obtain r st' where t: "translate lower P w d' st = (r, st')"
    by (cases "translate lower P w d' st")
  from holds_translate [OF t Cons.prems] have h: "holds st' d k v" .
  show ?case
  proof (cases r)
    case (Inl e)
    with t h show ?thesis by simp
  next
    case (Inr x)
    with t Cons.IH [OF h] show ?thesis by simp
  qed
qed

lemma holds_api_batch_translate:
  assumes "holds st d k v"
  shows "holds (snd (api_batch_translate lower P data st)) d k v"
proof -
  have "holds st' d k v" if "batch_loop lower P ws d' st [] = (r, st')" for ws d' r st'
    using holds_batch_loop [OF assms, of lower P ws d' "[]"] that by simp
  with assms show ?thesis
    by (auto simp: api_batch_translate_def split: sum.splits prod.splits pyval.splits)
qed

lemma holds_handle:
  assumes "c \<noteq> Clear_Cache" and "holds st d k v"
  shows "holds (handle lower P c st) d k v"
proof (cases c)
  case (Translate_Mizo data)
  with api_translate_mizo_state [of lower P data st] assms(2) show ?thesis
    by (auto dest: holds_translate)
next
  case (Translate_English data)
  with api_translate_english_state [of lower P data st] assms(2) show ?thesis
    by (auto dest: holds_translate)
next
  case (Batch_Translate data)
  with assms(2) show ?thesis
    by (simp add: holds_api_batch_translate)
qed (use assms in \<open>auto simp: api_status_def\<close>)

lemma holds_run:
  "Clear_Cache \<notin> set cs \<Longrightarrow> holds st d k v \<Longrightarrow> holds (run lower P cs st) d k v"
  by (induction cs arbitrary: st) (auto simp: holds_handle)

text \<open>
  The flag \<^verbatim>\<open>cached\<close> is computed after \<open>translate\<close> has returned, when a truthy
  translation is in the cache in any case: every answer with status 200 has it
  true.
\<close>

lemma single_answer_always_cached:
  "api_translate_mizo lower P data st = (Inr (PDict body, 200), st') \<Longrightarrow>
     map_of body (str ''cached'') = Some (PBool True)"
  "api_translate_english lower P data st = (Inr (PDict body, 200), st') \<Longrightarrow>
     map_of body (str ''cached'') = Some (PBool True)"
proof -
  have m: "map_of (cache_mizo_to_en s') (lower w) \<noteq> None"
    if "translate lower P (PStr w) (PStr (str ''mizo-to-en'')) s = (Inr tr, s')" "truthy tr" for s s' w tr
    using translate_stores [OF that] by (simp add: holds_iff)
  have e: "map_of (cache_en_to_mizo s') (lower w) \<noteq> None"
    if "translate lower P (PStr w) (PStr (str ''en-to-mizo'')) s = (Inr tr, s')" "truthy tr" for s s' w tr
    using translate_stores [OF that] by (simp add: holds_iff)
  show "api_translate_mizo lower P data st = (Inr (PDict body, 200), st') \<Longrightarrow>
     map_of body (str ''cached'') = Some (PBool True)"
    by (auto simp: api_translate_mizo_def no_word_def translation_failed_def
        split: sum.splits prod.splits if_splits dest: m)
  show "api_translate_english lower P data st = (Inr (PDict body, 200), st') \<Longrightarrow>
     map_of body (str ''cached'') = Some (PBool True)"
    by (auto simp: api_translate_english_def no_word_def translation_failed_def
        split: sum.splits prod.splits if_splits dest: e)
qed


section \<open>The loop of the batch endpoint\<close>





section \<open>The claims\<close>

text \<open>
  C1. The claim: the first request for a word answers \<^verbatim>\<open>cached:false\<close>, the repeat
  answers \<^verbatim>\<open>cached:true\<close>. The endpoint computes the flag after \<open>translate\<close> has
  stored the fresh translation, so the flag of the first answer is already true:
  with an empty cache and a provider that translates \<^verbatim>\<open>hello\<close> to \<^verbatim>\<open>chibai\<close>, the
  request is sent to the provider and the answer says \<^verbatim>\<open>cached:true\<close>. This is so
  whatever \<^verbatim>\<open>str.lower\<close> does; with the lower-casing of ASCII text the key stored
  is \<^verbatim>\<open>hello\<close>.
\<close>

theorem first_answer_says_cached:
  "api_translate_english lower (google_ok (str ''chibai''))
       (PDict [(str ''word'', PStr (str ''hello''))]) init =
     (Inr (PDict
        [(str ''english'', PStr (str ''hello'')),
         (str ''mizo'', PStr (str ''chibai'')),
         (str ''direction'', PStr (str ''english-to-mizo'')),
         (str ''model'', PStr (str ''Google Cloud Translate'')),
         (str ''cached'', PBool True),
         (str ''success'', PBool True)], 200),
      \<lparr>cache_en_to_mizo = [(lower (str ''hello''), PStr (str ''chibai''))],
         cache_mizo_to_en = [],
         sent = [\<lparr>param_q = str ''hello'', param_source = str ''en'',
                   param_target = str ''lus''\<rparr>]\<rparr>) \<and>
   api_translate_english ascii_lower (google_ok (str ''chibai''))
       (PDict [(str ''word'', PStr (str ''hello''))]) init =
     (Inr (PDict
        [(str ''english'', PStr (str ''hello'')),
         (str ''mizo'', PStr (str ''chibai'')),
         (str ''direction'', PStr (str ''english-to-mizo'')),
         (str ''model'', PStr (str ''Google Cloud Translate'')),
         (str ''cached'', PBool True),
         (str ''success'', PBool True)], 200),
      \<lparr>cache_en_to_mizo = [(str ''hello'', PStr (str ''chibai''))],
         cache_mizo_to_en = [],
         sent = [\<lparr>param_q = str ''hello'', param_source = str ''en'',
                   param_target = str ''lus''\<rparr>]\<rparr>)"
proof -
  have s: "strip (str ''hello'') = str ''hello''"
    by code_simp
  have l: "ascii_lower (str ''hello'') = str ''hello''"
    by code_simp
  have g: "api_translate_english lower (google_ok (str ''chibai''))
       (PDict [(str ''word'', PStr (str ''hello''))]) init =
     (Inr (PDict
        [(str ''english'', PStr (str ''hello'')),
         (str ''mizo'', PStr (str ''chibai'')),
         (str ''direction'', PStr (str ''english-to-mizo'')),
         (str ''model'', PStr (str ''Google Cloud Translate'')),
         (str ''cached'', PBool True),
         (str ''success'', PBool True)], 200),
      \<lparr>cache_en_to_mizo = [(lower (str ''hello''), PStr (str ''chibai''))],
         cache_mizo_to_en = [],
         sent = [\<lparr>param_q = str ''hello'', param_source = str ''en'',
                   param_target = str ''lus''\<rparr>]\<rparr>)" for lower
    by (simp add: api_translate_english_def s translate_def CACHE_get_def CACHE_set_def
        translate_with_google_def google_ok_def payload_def read_translation_def init_def)
  from g [of lower] g [of ascii_lower] show ?thesis
    by (simp add: l)
qed

text \<open>
  C8. Clearing the cache empties both directions, whatever they held; the status
  then reports both sizes as zero, and the next \<open>translate\<close> of any text, in either
  direction, sends a request to the provider.
\<close>

theorem clear_cache_empties_both:
  "api_clear_cache st =
     (Inr (PDict [(str ''message'', PStr (str ''Cache cleared'')), (str ''success'', PBool True)], 200),
      \<lparr>cache_en_to_mizo = [], cache_mizo_to_en = [], sent = sent st\<rparr>) \<and>
   py_getitem (fst (the_reply (fst (api_status (snd (api_clear_cache st)))))) (str ''cache_size'') =
     Inr (PDict [(str ''mizo_to_english'', PInt 0), (str ''english_to_mizo'', PInt 0)]) \<and>
   sent (snd (translate lower P (PStr t) (PStr (str ''en-to-mizo'')) (snd (api_clear_cache st)))) =
     sent st @ [\<lparr>param_q = t, param_source = str ''en'', param_target = str ''lus''\<rparr>] \<and>
   sent (snd (translate lower P (PStr t) (PStr (str ''mizo-to-en'')) (snd (api_clear_cache st)))) =
     sent st @ [\<lparr>param_q = t, param_source = str ''lus'', param_target = str ''en''\<rparr>]"
proof -
  let ?st = "snd (api_clear_cache st)"
  have clear: "?st = \<lparr>cache_en_to_mizo = [], cache_mizo_to_en = [], sent = sent st\<rparr>"
    by (simp add: api_clear_cache_def)
  have sends: "sent (snd (translate lower P (PStr t) d ?st)) = sent st @ [request_for t d]"
    if "d = PStr (str ''en-to-mizo'') \<or> d = PStr (str ''mizo-to-en'')" for d
  proof -
    obtain r st' where tr: "translate lower P (PStr t) d ?st = (r, st')"
      by (cases "translate lower P (PStr t) d ?st")
    from tr show ?thesis
    proof (cases rule: translate_cases)
      case (raised e)
      with tr translate_Inr [OF that, of lower P t ?st] show ?thesis by simp
    next
      case (hit s c v)
      with that show ?thesis by (auto simp: CACHE_get_def clear)
    next
      case (failed s c res)
      with tr show ?thesis by (simp add: clear)
    next
      case (stored s c res)
      with tr show ?thesis by (simp add: clear CACHE_set_def)
    qed
  qed
  show ?thesis
    using sends [of "PStr (str ''en-to-mizo'')"] sends [of "PStr (str ''mizo-to-en'')"]
    by (simp add: api_clear_cache_def api_status_def the_reply_def request_for_def)
qed

text \<open>
  C9. Cache keys are case-insensitive: once a text has been translated, a text with
  the same \<^verbatim>\<open>str.lower()\<close>, that is one that differs from it in letter case only, is
  answered from the same cache entry, with the same translation, and nothing is
  sent to the provider (the state, which records the requests sent, stays as it
  is). This holds whatever \<^verbatim>\<open>str.lower\<close> does.
\<close>

theorem cache_key_case_insensitive:
  assumes "lower t1 = lower t2"
    and "translate lower P (PStr t1) d st = (Inr r, st')"
    and "truthy r"
  shows "translate lower P (PStr t2) d st' = (Inr r, st')"
  using assms(2)
proof (cases rule: translate_cases)
  case (hit s c v)
  with assms(1) show ?thesis by (simp add: translate_hit)
next
  case (stored s c res)
  then have "CACHE_get st' d = Inr (AList.update (lower t1) r c)"
    by (simp add: CACHE_get_CACHE_set)
  with assms(1) show ?thesis by (simp add: translate_hit update_conv')
qed (use assms(3) in auto)

theorem cache_key_case_insensitive_witness:
  "ascii_lower (str ''Tlawm'') = ascii_lower (str ''tlawm'') \<and>
   translate ascii_lower (google_ok (str ''thank'')) (PStr (str ''Tlawm'')) (PStr (str ''mizo-to-en'')) init =
     (Inr (PStr (str ''thank'')),
      \<lparr>cache_en_to_mizo = [], cache_mizo_to_en = [(str ''tlawm'', PStr (str ''thank''))],
         sent = [\<lparr>param_q = str ''Tlawm'', param_source = str ''lus'', param_target = str ''en''\<rparr>]\<rparr>) \<and>
   translate ascii_lower (google_ok (str ''thank'')) (PStr (str ''tlawm'')) (PStr (str ''mizo-to-en''))
     \<lparr>cache_en_to_mizo = [], cache_mizo_to_en = [(str ''tlawm'', PStr (str ''thank''))],
        sent = [\<lparr>param_q = str ''Tlawm'', param_source = str ''lus'', param_target = str ''en''\<rparr>]\<rparr> =
     (Inr (PStr (str ''thank'')),
      \<lparr>cache_en_to_mizo = [], cache_mizo_to_en = [(str ''tlawm'', PStr (str ''thank''))],
         sent = [\<lparr>param_q = str ''Tlawm'', param_source = str ''lus'', param_target = str ''en''\<rparr>]\<rparr>)"
proof -
  have h1: "ascii_lower (str ''Tlawm'') = ascii_lower (str ''tlawm'')"
    by code_simp
  have h2: "translate ascii_lower (google_ok (str ''thank'')) (PStr (str ''Tlawm'')) (PStr (str ''mizo-to-en'')) init =
     (Inr (PStr (str ''thank'')),
      \<lparr>cache_en_to_mizo = [], cache_mizo_to_en = [(str ''tlawm'', PStr (str ''thank''))],
         sent = [\<lparr>param_q = str ''Tlawm'', param_source = str ''lus'', param_target = str ''en''\<rparr>]\<rparr>)"
    by code_simp
  have h3: "truthy (PStr (str ''thank''))"
    by simp
  from cache_key_case_insensitive [OF h1 h2 h3] h1 h2 show ?thesis
    by simp
qed




text \<open>
  C7. A single-translate request whose \<^verbatim>\<open>word\<close> is missing, empty or only
  whitespace is answered with 400 and \<^verbatim>\<open>success:false\<close>; the state is unchanged, so
  nothing was translated, stored or sent to the provider. The example is a word
  of a no-break space, a tab and a space.
\<close>

theorem empty_word_rejected:
  assumes "map_of kvs (str ''word'') = None \<or> (\<exists>w. map_of kvs (str ''word'') = Some (PStr w) \<and> strip w = [])"
  shows "api_translate_mizo lower P (PDict kvs) st =
           (Inr (PDict [(str ''error'', PStr (str ''No word provided'')), (str ''success'', PBool False)], 400), st) \<and>
         api_translate_english lower P (PDict kvs) st =
           (Inr (PDict [(str ''error'', PStr (str ''No word provided'')), (str ''success'', PBool False)], 400), st)"
proof -
  have e: "strip [] = []" by (simp add: strip_def)
  from assms e show ?thesis
    by (auto simp: api_translate_mizo_def api_translate_english_def no_word_def)
qed

theorem empty_word_rejected_witness:
  "(map_of [(str ''word'', PStr [160, 9, 32])] (str ''word'') = None \<or>
     (\<exists>w. map_of [(str ''word'', PStr [160, 9, 32])] (str ''word'') = Some (PStr w) \<and> strip w = [])) \<and>
   api_translate_mizo ascii_lower (google_ok (str ''x'')) (PDict [(str ''word'', PStr [160, 9, 32])]) init =
     (Inr (PDict [(str ''error'', PStr (str ''No word provided'')), (str ''success'', PBool False)], 400), init) \<and>
   api_translate_english ascii_lower (google_ok (str ''x'')) (PDict [(str ''word'', PStr [160, 9, 32])]) init =
     (Inr (PDict [(str ''error'', PStr (str ''No word provided'')), (str ''success'', PBool False)], 400), init)"
proof -
  have s: "strip [160, 9, 32] = []" by code_simp
  have h: "map_of [(str ''word'', PStr [160, 9, 32])] (str ''word'') = None \<or>
     (\<exists>w. map_of [(str ''word'', PStr [160, 9, 32])] (str ''word'') = Some (PStr w) \<and> strip w = [])"
    using s by simp
  from empty_word_rejected [OF h, of ascii_lower "google_ok (str ''x'')" init] h show ?thesis
    by blast
qed

text \<open>
  C10. The batch endpoint does not validate the direction: with a direction that is
  hashable and neither \<^verbatim>\<open>'mizo-to-en'\<close> nor \<^verbatim>\<open>'en-to-mizo'\<close>, and a list of words
  that starts with a string, \<^verbatim>\<open>CACHE[direction]\<close> raises KeyError for the first
  word; the exception escapes the endpoint, which sends no 400 answer, and the state
  is unchanged.
\<close>

theorem batch_direction_not_validated:
  assumes "map_of kvs (str ''words'') = Some (PList (PStr w # ws))"
    and "map_of kvs (str ''direction'') = Some d"
    and "hashable d"
    and "d \<noteq> PStr (str ''mizo-to-en'')" and "d \<noteq> PStr (str ''en-to-mizo'')"
  shows "api_batch_translate lower P (PDict kvs) st = (Inl KeyError, st)"
  using assms
  by (simp add: api_batch_translate_def translate_def CACHE_get_def)

theorem batch_direction_not_validated_witness:
  "map_of [(str ''words'', PList [PStr (str ''tlawm'')]), (str ''direction'', PStr (str ''mizo-to-english''))] (str ''words'')
     = Some (PList (PStr (str ''tlawm'') # [])) \<and>
   map_of [(str ''words'', PList [PStr (str ''tlawm'')]), (str ''direction'', PStr (str ''mizo-to-english''))] (str ''direction'')
     = Some (PStr (str ''mizo-to-english'')) \<and>
   hashable (PStr (str ''mizo-to-english'')) \<and>
   PStr (str ''mizo-to-english'') \<noteq> PStr (str ''mizo-to-en'') \<and>
   PStr (str ''mizo-to-english'') \<noteq> PStr (str ''en-to-mizo'') \<and>
   api_batch_translate ascii_lower (google_ok (str ''thank''))
     (PDict [(str ''words'', PList [PStr (str ''tlawm'')]), (str ''direction'', PStr (str ''mizo-to-english''))]) init
     = (Inl KeyError, init)"
proof -
  let ?kvs = "[(str ''words'', PList [PStr (str ''tlawm'')]), (str ''direction'', PStr (str ''mizo-to-english''))]"
  have h1: "map_of ?kvs (str ''words'') = Some (PList (PStr (str ''tlawm'') # []))" by simp
  have h2: "map_of ?kvs (str ''direction'') = Some (PStr (str ''mizo-to-english''))" by simp
  have h3: "hashable (PStr (str ''mizo-to-english''))" by simp
  have h4: "PStr (str ''mizo-to-english'') \<noteq> PStr (str ''mizo-to-en'')" by simp
  have h5: "PStr (str ''mizo-to-english'') \<noteq> PStr (str ''en-to-mizo'')" by simp
  from batch_direction_not_validated [OF h1 h2 h3 h4 h5, of ascii_lower "google_ok (str ''thank'')" init] h1 h2 h3 h4 h5
  show ?thesis by simp
qed


text \<open>
  C2, as stated: after one successful translation of a text no later call of
  \<open>translate\<close> with the same direction and lower-cased text sends a request, and
  each returns the first result. It fails when the cache is cleared in between:
  the second call below sends a second request and returns what the provider
  answers then.
\<close>

theorem translate_after_clear_cache_asks_again:
  "translate ascii_lower (google_seq [str ''chibai'', str ''dam em'']) (PStr (str ''hello'')) (PStr (str ''en-to-mizo'')) init =
     (Inr (PStr (str ''chibai'')),
      \<lparr>cache_en_to_mizo = [(str ''hello'', PStr (str ''chibai''))], cache_mizo_to_en = [],
         sent = [\<lparr>param_q = str ''hello'', param_source = str ''en'', param_target = str ''lus''\<rparr>]\<rparr>) \<and>
   translate ascii_lower (google_seq [str ''chibai'', str ''dam em'']) (PStr (str ''hello'')) (PStr (str ''en-to-mizo''))
     (run ascii_lower (google_seq [str ''chibai'', str ''dam em'']) [Clear_Cache]
        \<lparr>cache_en_to_mizo = [(str ''hello'', PStr (str ''chibai''))], cache_mizo_to_en = [],
           sent = [\<lparr>param_q = str ''hello'', param_source = str ''en'', param_target = str ''lus''\<rparr>]\<rparr>) =
     (Inr (PStr (str ''dam em'')),
      \<lparr>cache_en_to_mizo = [(str ''hello'', PStr (str ''dam em''))], cache_mizo_to_en = [],
         sent = [\<lparr>param_q = str ''hello'', param_source = str ''en'', param_target = str ''lus''\<rparr>,
                 \<lparr>param_q = str ''hello'', param_source = str ''en'', param_target = str ''lus''\<rparr>]\<rparr>)"
  by code_simp

text \<open>
  C2, amended: after a successful translation of a text (\<open>translate\<close> returned a
  truthy result, the test by which the code itself tells success), and through any
  sequence of requests to the server that has no \<^verbatim>\<open>/api/clear-cache\<close> in it, a
  call of \<open>translate\<close> with the same direction and a text with the same
  \<^verbatim>\<open>str.lower()\<close> returns the first result and leaves the state as it is, so it
  sends nothing to the provider. This holds whatever \<^verbatim>\<open>str.lower\<close> does.
\<close>

theorem translate_cached_until_cleared:
  assumes "translate lower P (PStr t) d st = (Inr r, st1)"
    and "truthy r"
    and "Clear_Cache \<notin> set calls"
    and "lower t' = lower t"
  shows "translate lower P (PStr t') d (run lower P calls st1) = (Inr r, run lower P calls st1)"
proof -
  from translate_stores [OF assms(1,2)] have "holds st1 d (lower t) r" .
  from holds_run [OF assms(3) this] have "holds (run lower P calls st1) d (lower t') r"
    by (simp add: assms(4))
  then show ?thesis by (rule translate_held)
qed


theorem translate_cached_until_cleared_witness:
  "translate ascii_lower (google_ok (str ''chibai'')) (PStr (str ''Hello'')) (PStr (str ''en-to-mizo'')) init =
     (Inr (PStr (str ''chibai'')),
      \<lparr>cache_en_to_mizo = [(str ''hello'', PStr (str ''chibai''))], cache_mizo_to_en = [],
         sent = [\<lparr>param_q = str ''Hello'', param_source = str ''en'', param_target = str ''lus''\<rparr>]\<rparr>) \<and>
   truthy (PStr (str ''chibai'')) \<and>
   Clear_Cache \<notin> set [Status, Translate_Mizo (PDict [(str ''word'', PStr (str ''tlawm''))]),
      Batch_Translate (PDict [(str ''words'', PList [PStr (str ''sava'')]), (str ''direction'', PStr (str ''en-to-mizo''))]),
      Index] \<and>
   ascii_lower (str ''hello'') = ascii_lower (str ''Hello'') \<and>
   run ascii_lower (google_ok (str ''chibai''))
     [Status, Translate_Mizo (PDict [(str ''word'', PStr (str ''tlawm''))]),
      Batch_Translate (PDict [(str ''words'', PList [PStr (str ''sava'')]), (str ''direction'', PStr (str ''en-to-mizo''))]),
      Index]
     \<lparr>cache_en_to_mizo = [(str ''hello'', PStr (str ''chibai''))], cache_mizo_to_en = [],
        sent = [\<lparr>param_q = str ''Hello'', param_source = str ''en'', param_target = str ''lus''\<rparr>]\<rparr> =
     \<lparr>cache_en_to_mizo = [(str ''hello'', PStr (str ''chibai'')), (str ''sava'', PStr (str ''chibai''))],
        cache_mizo_to_en = [(str ''tlawm'', PStr (str ''chibai''))],
        sent = [\<lparr>param_q = str ''Hello'', param_source = str ''en'', param_target = str ''lus''\<rparr>,
                \<lparr>param_q = str ''tlawm'', param_source = str ''lus'', param_target = str ''en''\<rparr>,
                \<lparr>param_q = str ''sava'', param_source = str ''en'', param_target = str ''lus''\<rparr>]\<rparr> \<and>
   translate ascii_lower (google_ok (str ''chibai'')) (PStr (str ''hello'')) (PStr (str ''en-to-mizo''))
     \<lparr>cache_en_to_mizo = [(str ''hello'', PStr (str ''chibai'')), (str ''sava'', PStr (str ''chibai''))],
        cache_mizo_to_en = [(str ''tlawm'', PStr (str ''chibai''))],
        sent = [\<lparr>param_q = str ''Hello'', param_source = str ''en'', param_target = str ''lus''\<rparr>,
                \<lparr>param_q = str ''tlawm'', param_source = str ''lus'', param_target = str ''en''\<rparr>,
                \<lparr>param_q = str ''sava'', param_source = str ''en'', param_target = str ''lus''\<rparr>]\<rparr> =
     (Inr (PStr (str ''chibai'')),
      \<lparr>cache_en_to_mizo = [(str ''hello'', PStr (str ''chibai'')), (str ''sava'', PStr (str ''chibai''))],
         cache_mizo_to_en = [(str ''tlawm'', PStr (str ''chibai''))],
         sent = [\<lparr>param_q = str ''Hello'', param_source = str ''en'', param_target = str ''lus''\<rparr>,
                 \<lparr>param_q = str ''tlawm'', param_source = str ''lus'', param_target = str ''en''\<rparr>,
                 \<lparr>param_q = str ''sava'', param_source = str ''en'', param_target = str ''lus''\<rparr>]\<rparr>)"
proof -
  let ?P = "google_ok (str ''chibai'')"
  let ?calls = "[Status, Translate_Mizo (PDict [(str ''word'', PStr (str ''tlawm''))]),
      Batch_Translate (PDict [(str ''words'', PList [PStr (str ''sava'')]), (str ''direction'', PStr (str ''en-to-mizo''))]),
      Index]"
  let ?s1 = "\<lparr>cache_en_to_mizo = [(str ''hello'', PStr (str ''chibai''))], cache_mizo_to_en = [],
         sent = [\<lparr>param_q = str ''Hello'', param_source = str ''en'', param_target = str ''lus''\<rparr>]\<rparr>"
  have h1: "translate ascii_lower ?P (PStr (str ''Hello'')) (PStr (str ''en-to-mizo'')) init = (Inr (PStr (str ''chibai'')), ?s1)"
    by code_simp
  have h2: "truthy (PStr (str ''chibai''))" by simp
  have h3: "Clear_Cache \<notin> set ?calls" by simp
  have h4: "ascii_lower (str ''hello'') = ascii_lower (str ''Hello'')" by code_simp
  have r: "run ascii_lower ?P ?calls ?s1 =
     \<lparr>cache_en_to_mizo = [(str ''hello'', PStr (str ''chibai'')), (str ''sava'', PStr (str ''chibai''))],
        cache_mizo_to_en = [(str ''tlawm'', PStr (str ''chibai''))],
        sent = [\<lparr>param_q = str ''Hello'', param_source = str ''en'', param_target = str ''lus''\<rparr>,
                \<lparr>param_q = str ''tlawm'', param_source = str ''lus'', param_target = str ''en''\<rparr>,
                \<lparr>param_q = str ''sava'', param_source = str ''en'', param_target = str ''lus''\<rparr>]\<rparr>"
    by code_simp
  from translate_cached_until_cleared [OF h1 h2 h3 h4] h1 h2 h3 h4 r show ?thesis
    by simp
qed

text \<open>
  C3. The claim: the cache key is the text lower-cased and stripped, so that two
  inputs that differ only in surrounding whitespace or letter case use one cache
  entry on every endpoint, the batch endpoint too. The two single-translate
  endpoints strip the word before they call \<open>translate\<close>; the batch endpoint does
  not, and \<open>translate\<close> only lower-cases. On the batch endpoint two words that
  differ in a leading space get two requests to the provider and two cache
  entries.
\<close>

theorem batch_key_keeps_whitespace:
  "api_batch_translate ascii_lower (google_ok (str ''chibai''))
     (PDict [(str ''words'', PList [PStr (str ''hello''), PStr (str '' hello'')]),
             (str ''direction'', PStr (str ''en-to-mizo''))]) init =
     (Inr (PDict
        [(str ''translations'', PList
            [PDict [(str ''input'', PStr (str ''hello'')), (str ''output'', PStr (str ''chibai'')),
                    (str ''direction'', PStr (str ''en-to-mizo''))],
             PDict [(str ''input'', PStr (str '' hello'')), (str ''output'', PStr (str ''chibai'')),
                    (str ''direction'', PStr (str ''en-to-mizo''))]]),
         (str ''count'', PInt 2),
         (str ''model'', PStr (str ''Google Cloud Translate'')),
         (str ''success'', PBool True)], 200),
      \<lparr>cache_en_to_mizo = [(str ''hello'', PStr (str ''chibai'')), (str '' hello'', PStr (str ''chibai''))],
         cache_mizo_to_en = [],
         sent = [\<lparr>param_q = str ''hello'', param_source = str ''en'', param_target = str ''lus''\<rparr>,
                 \<lparr>param_q = str '' hello'', param_source = str ''en'', param_target = str ''lus''\<rparr>]\<rparr>)"
  by code_simp






end
